theory Spec2Isabelle
  imports Complex_Main "HOL-Library.Product_Lexorder"
begin

section \<open>Python values and exceptions\<close>

text \<open>
  The four assertions of \<^verbatim>\<open>weather_chart.py\<close> carry four different messages
  (``provided city is not available'' and so on); the message is what tells one
  \<^verbatim>\<open>AssertionError\<close> from another, so it is part of the error value.
\<close>

datatype assert_msg =
  City_not_available | Year_not_available | Month_not_available | Day_not_available

datatype py_error =
  AssertionError assert_msg
  | KeyError
  | IndexError
  | ValueError
  | AttributeError
  | ZeroDivisionError
  | UnboundLocalError

text \<open>
  A Python float is a finite number, an infinity or a NaN. Finite values are kept as
  exact reals: rounding to the nearest double is not part of this model.
\<close>

datatype pyfloat = Finite real | PosInf | NegInf | NaN

definition bind_err :: "py_error + 'a \<Rightarrow> ('a \<Rightarrow> py_error + 'b) \<Rightarrow> py_error + 'b" where
  "bind_err r f = (case r of Inl e \<Rightarrow> Inl e | Inr v \<Rightarrow> f v)"

section \<open>String operations used by the loader\<close>

text \<open>
  A character is a code point below 256. \<^verbatim>\<open>str.strip()\<close> removes the white space
  of \<^verbatim>\<open>str.isspace\<close>: in this range the ASCII white space, the separators 0x1C to 0x1F,
  the next-line character 0x85 and the no-break space 0xA0.
\<close>

definition is_space :: "char \<Rightarrow> bool" where
  "is_space c \<longleftrightarrow> c \<in> set [CHR '' '', CHR 0x09, CHR 0x0A, CHR 0x0B, CHR 0x0C, CHR 0x0D,
                          CHR 0x1C, CHR 0x1D, CHR 0x1E, CHR 0x1F, CHR 0x85, CHR 0xA0]"

definition strip :: "string \<Rightarrow> string" where
  "strip s = rev (dropWhile is_space (rev (dropWhile is_space s)))"

text \<open>\<^verbatim>\<open>s.split(',')\<close>: the empty string splits into one empty field.\<close>

fun split_comma :: "string \<Rightarrow> string list" where
  "split_comma [] = [[]]"
| "split_comma (c # cs) =
     (if c = CHR '','' then [] # split_comma cs
      else (case split_comma cs of [] \<Rightarrow> [[c]] | w # ws \<Rightarrow> (c # w) # ws))"

definition is_digit :: "char \<Rightarrow> bool" where
  "is_digit c \<longleftrightarrow> c \<in> set ''0123456789''"

definition digit_val :: "char \<Rightarrow> nat" where
  "digit_val c = of_char c - 48"

definition digits_val :: "string \<Rightarrow> nat" where
  "digits_val ds = foldl (\<lambda>a c. 10 * a + digit_val c) 0 ds"

text \<open>\<^verbatim>\<open>int(g)\<close> for a group \<open>g\<close> that the pattern has matched, so all digits.\<close>

definition py_int :: "string \<Rightarrow> int" where
  "py_int ds = int (digits_val ds)"

text \<open>
  \<^verbatim>\<open>re.match('(\d\d\d\d)(\d\d)(\d\d)', s)\<close> anchors at the start of \<open>s\<close> only:
  it succeeds when the first eight characters are digits, whatever follows, and
  returns the three groups; otherwise it returns \<^verbatim>\<open>None\<close>.
\<close>

definition re_match_date :: "string \<Rightarrow> (string \<times> string \<times> string) option" where
  "re_match_date s =
     (if 8 \<le> length s \<and> list_all is_digit (take 8 s)
      then Some (take 4 s, take 2 (drop 4 s), take 2 (drop 6 s))
      else None)"

text \<open>\<^verbatim>\<open>xs.index(v)\<close> raises \<^verbatim>\<open>ValueError\<close> when \<open>v\<close> is not in the list.\<close>

fun index_of :: "'a list \<Rightarrow> 'a \<Rightarrow> py_error + nat" where
  "index_of [] v = Inl ValueError"
| "index_of (x # xs) v =
     (if x = v then Inr 0
      else (case index_of xs v of Inl e \<Rightarrow> Inl e | Inr i \<Rightarrow> Inr (Suc i)))"

text \<open>\<^verbatim>\<open>xs[i]\<close> for a non-negative index.\<close>

definition getitem :: "'a list \<Rightarrow> nat \<Rightarrow> py_error + 'a" where
  "getitem xs i = (if i < length xs then Inr (xs ! i) else Inl IndexError)"

subsection \<open>The builtin \<^verbatim>\<open>float\<close> on strings\<close>

definition lower :: "char \<Rightarrow> char" where
  "lower c = (let n = (of_char c :: nat) in if 65 \<le> n \<and> n \<le> 90 then char_of (n + 32) else c)"

definition split_sign :: "string \<Rightarrow> bool \<times> string" where
  "split_sign s =
     (case s of [] \<Rightarrow> (False, s)
      | c # r \<Rightarrow> if c = CHR ''-'' then (True, r)
                 else if c = CHR ''+'' then (False, r) else (False, s))"

text \<open>
  An underscore may stand between two digits and nowhere else; the literal is read with
  the underscores removed. \<open>prev\<close> is the character before the one looked at.
\<close>

fun drop_underscores :: "char \<Rightarrow> string \<Rightarrow> string option" where
  "drop_underscores prev [] = (if prev = CHR ''_'' then None else Some [])"
| "drop_underscores prev (c # cs) =
     (if c = CHR ''_'' then (if is_digit prev then drop_underscores c cs else None)
      else if prev = CHR ''_'' \<and> \<not> is_digit c then None
      else (case drop_underscores c cs of None \<Rightarrow> None | Some r \<Rightarrow> Some (c # r)))"

text \<open>
  A decimal literal: digits, an optional point and more digits (at least one digit in
  all), an optional exponent. The value is the exact value of the literal.
\<close>

definition decimal :: "string \<Rightarrow> real option" where
  "decimal u =
     (let ip = takeWhile is_digit u;
          r1 = dropWhile is_digit u;
          (fp, r2) = (case r1 of [] \<Rightarrow> ([], r1)
                      | c # r \<Rightarrow> if c = CHR ''.''
                                 then (takeWhile is_digit r, dropWhile is_digit r)
                                 else ([], r1));
          mant = real (digits_val (ip @ fp)) / 10 ^ length fp
      in if ip @ fp = [] then None
         else (case r2 of [] \<Rightarrow> Some mant
               | c # r \<Rightarrow>
                   if c = CHR ''e'' \<or> c = CHR ''E''
                   then (let (eneg, ds) = split_sign r
                         in if ds \<noteq> [] \<and> list_all is_digit ds
                            then Some (if eneg then mant / 10 ^ digits_val ds
                                       else mant * 10 ^ digits_val ds)
                            else None)
                   else None))"

text \<open>
  A literal whose value rounds beyond the largest double becomes an infinity: that is
  from \<open>2 ^ 1024 - 2 ^ 970\<close> on, half a unit in the last place above the largest finite
  double. Below that the exact value is kept, not the nearest double.
\<close>

definition double_limit :: real where
  "double_limit = 2 ^ 1024 - 2 ^ 970"

definition to_double :: "real \<Rightarrow> pyfloat" where
  "to_double r =
     (if double_limit \<le> r then PosInf
      else if r \<le> - double_limit then NegInf
      else Finite r)"

text \<open>
  \<^verbatim>\<open>float(s)\<close>: white space is stripped, the underscores are checked and removed, a
  sign is read, then the words \<^verbatim>\<open>inf\<close>, \<^verbatim>\<open>infinity\<close> and \<^verbatim>\<open>nan\<close> are accepted
  in any case, as is any decimal literal. \<open>None\<close> stands for the \<^verbatim>\<open>ValueError\<close> of
  the builtin. There is no test for finiteness.
\<close>

definition py_float :: "string \<Rightarrow> pyfloat option" where
  "py_float s =
     (case drop_underscores (CHR 0x00) (strip s) of
        None \<Rightarrow> None
      | Some t \<Rightarrow>
          (let (neg, u) = split_sign t;
               w = map lower u
           in if w = ''inf'' \<or> w = ''infinity'' then Some (if neg then NegInf else PosInf)
              else if w = ''nan'' then Some NaN
              else (case decimal u of None \<Rightarrow> None
                    | Some v \<Rightarrow> Some (to_double (if neg then - v else v)))))"

section \<open>The temperature store (class \<^verbatim>\<open>Climate\<close>)\<close>

text \<open>\<^verbatim>\<open>self.rawdata\<close>: city, then year, then month, then day, then temperature.\<close>

type_synonym day_map = "int \<rightharpoonup> pyfloat"
type_synonym month_map = "int \<rightharpoonup> day_map"
type_synonym year_map = "int \<rightharpoonup> month_map"
type_synonym rawdata = "string \<rightharpoonup> year_map"

text \<open>
  One line of the file: the fields are looked up by the header's column names, in the
  order the constructor evaluates them (date, city, temperature). A date that the pattern
  does not match makes \<^verbatim>\<open>date.group(1)\<close> raise \<^verbatim>\<open>AttributeError\<close>.
\<close>

definition parse_line ::
  "string list \<Rightarrow> string list \<Rightarrow> py_error + (string \<times> int \<times> int \<times> int \<times> pyfloat)" where
  "parse_line header items =
     bind_err (index_of header ''DATE'') (\<lambda>i.
     bind_err (getitem items i) (\<lambda>ds.
     case re_match_date ds of None \<Rightarrow> Inl AttributeError
     | Some (g1, g2, g3) \<Rightarrow>
     bind_err (index_of header ''CITY'') (\<lambda>j.
     bind_err (getitem items j) (\<lambda>c.
     bind_err (index_of header ''TEMP'') (\<lambda>k.
     bind_err (getitem items k) (\<lambda>ts.
     case py_float ts of None \<Rightarrow> Inl ValueError
     | Some t \<Rightarrow> Inr (c, py_int g1, py_int g2, py_int g3, t)))))))"

text \<open>
  Lines 62 to 68: each missing level is created empty, then the leaf is written. The
  nested dictionaries are reachable from their parent only, so rebuilding the path is the
  same as the in-place update.
\<close>

definition store_record ::
  "rawdata \<Rightarrow> string \<Rightarrow> int \<Rightarrow> int \<Rightarrow> int \<Rightarrow> pyfloat \<Rightarrow> rawdata" where
  "store_record rd c y m d t =
     (let ys = (case rd c of None \<Rightarrow> Map.empty | Some ys \<Rightarrow> ys);
          ms = (case ys y of None \<Rightarrow> Map.empty | Some ms \<Rightarrow> ms);
          dm = (case ms m of None \<Rightarrow> Map.empty | Some dm \<Rightarrow> dm)
      in rd(c \<mapsto> ys(y \<mapsto> ms(m \<mapsto> dm(d \<mapsto> t)))))"

text \<open>The loop over the lines after the header; the first exception ends the load.\<close>

fun load_lines :: "string list \<Rightarrow> string list \<Rightarrow> rawdata \<Rightarrow> py_error + rawdata" where
  "load_lines header [] rd = Inr rd"
| "load_lines header (line # rest) rd =
     (case parse_line header (split_comma (strip line)) of
        Inl e \<Rightarrow> Inl e
      | Inr (c, y, m, d, t) \<Rightarrow> load_lines header rest (store_record rd c y m d t))"

text \<open>
  \<^verbatim>\<open>Climate.__init__\<close> on the lines of the file. \<^verbatim>\<open>f.readline()\<close> on an empty
  file returns the empty string.
\<close>

definition Climate_init :: "string list \<Rightarrow> py_error + rawdata" where
  "Climate_init file_lines =
     (case file_lines of
        [] \<Rightarrow> Inr Map.empty
      | h # rest \<Rightarrow> load_lines (split_comma (strip h)) rest Map.empty)"

text \<open>
  \<^verbatim>\<open>get_yearly_temp\<close>. The inner loop reads \<^verbatim>\<open>self.rawdata[city][year][month]\<close>
  at every day, with a plain subscript: a month that is not a key raises
  \<^verbatim>\<open>KeyError\<close>.
\<close>

fun yearly_days :: "month_map \<Rightarrow> int \<Rightarrow> int list \<Rightarrow> pyfloat list \<Rightarrow> py_error + pyfloat list" where
  "yearly_days ym m [] temps = Inr temps"
| "yearly_days ym m (d # ds) temps =
     (case ym m of
        None \<Rightarrow> Inl KeyError
      | Some dm \<Rightarrow> yearly_days ym m ds (case dm d of None \<Rightarrow> temps | Some t \<Rightarrow> temps @ [t]))"

fun yearly_months :: "month_map \<Rightarrow> int list \<Rightarrow> pyfloat list \<Rightarrow> py_error + pyfloat list" where
  "yearly_months ym [] temps = Inr temps"
| "yearly_months ym (m # ms) temps =
     (case yearly_days ym m [1..31] temps of
        Inl e \<Rightarrow> Inl e
      | Inr temps' \<Rightarrow> yearly_months ym ms temps')"

definition get_yearly_temp :: "rawdata \<Rightarrow> string \<Rightarrow> int \<Rightarrow> py_error + pyfloat list" where
  "get_yearly_temp rd c y =
     (case rd c of
        None \<Rightarrow> Inl (AssertionError City_not_available)
      | Some ys \<Rightarrow>
          (case ys y of
             None \<Rightarrow> Inl (AssertionError Year_not_available)
           | Some ym \<Rightarrow> yearly_months ym [1..12] []))"

text \<open>\<^verbatim>\<open>get_daily_temp(city, month, day, year)\<close>, with the source's argument order.\<close>

definition get_daily_temp :: "rawdata \<Rightarrow> string \<Rightarrow> int \<Rightarrow> int \<Rightarrow> int \<Rightarrow> py_error + pyfloat" where
  "get_daily_temp rd c m d y =
     (case rd c of
        None \<Rightarrow> Inl (AssertionError City_not_available)
      | Some ys \<Rightarrow>
          (case ys y of
             None \<Rightarrow> Inl (AssertionError Year_not_available)
           | Some ms \<Rightarrow>
               (case ms m of
                  None \<Rightarrow> Inl (AssertionError Month_not_available)
                | Some dm \<Rightarrow>
                    (case dm d of
                       None \<Rightarrow> Inl (AssertionError Day_not_available)
                     | Some t \<Rightarrow> Inr t))))"

section \<open>Regression: fitting, scoring, plotting\<close>

subsection \<open>\<^verbatim>\<open>r_squared\<close> over any arithmetic\<close>

text \<open>
  What the arithmetic of \<^verbatim>\<open>r_squared\<close> does depends on the numbers it is given
  (Python integers, Python floats, numpy scalars) and on their rounding, so the function is
  first translated with its arithmetic as a parameter: \<open>'a\<close> are the elements of the two
  lists and what the loop computes from them, \<open>'b\<close> the numpy scalars that
  \<^verbatim>\<open>np.var\<close> and the final division return. Of these operations \<^verbatim>\<open>**\<close> can raise
  (\<^verbatim>\<open>OverflowError\<close> on Python floats), and so can the division by the length (on
  Python integers too large for a float); subtraction, addition and the numpy operations
  return a value.
\<close>

record ('a, 'b) arith =
  py_zero :: 'a
  py_sub :: "'a \<Rightarrow> 'a \<Rightarrow> 'a"
  py_square :: "'a \<Rightarrow> py_error + 'a"
  py_add :: "'a \<Rightarrow> 'a \<Rightarrow> 'a"
  py_div_len :: "'a \<Rightarrow> nat \<Rightarrow> py_error + 'a"
  np_var_of :: "'a list \<Rightarrow> 'b"
  np_rdiv :: "'a \<Rightarrow> 'b \<Rightarrow> 'b"
  np_one_minus :: "'b \<Rightarrow> 'b"

text \<open>
  The loop over \<^verbatim>\<open>range(len(estimated))\<close>: \<^verbatim>\<open>estimated[i]\<close> is read first, then
  \<^verbatim>\<open>y[i]\<close>, which raises when \<open>y\<close> is the shorter list; then the difference is
  squared and added to \<^verbatim>\<open>sum_of_squares\<close>.
\<close>

fun sum_of_squares_with ::
  "('a, 'b) arith \<Rightarrow> 'a list \<Rightarrow> 'a list \<Rightarrow> nat list \<Rightarrow> 'a \<Rightarrow> py_error + 'a" where
  "sum_of_squares_with A y estimated [] acc = Inr acc"
| "sum_of_squares_with A y estimated (i # is) acc =
     bind_err (getitem estimated i) (\<lambda>e.
     bind_err (getitem y i) (\<lambda>v.
     bind_err (py_square A (py_sub A e v)) (\<lambda>s.
     sum_of_squares_with A y estimated is (py_add A acc s))))"

text \<open>
  With no element \<^verbatim>\<open>sum_of_squares\<close> is still the integer 0 and the first division
  is 0 by 0 on integers: \<^verbatim>\<open>ZeroDivisionError\<close>. The second division has
  \<^verbatim>\<open>np.var(y)\<close> on its right and is numpy's.
\<close>

definition r_squared_with :: "('a, 'b) arith \<Rightarrow> 'a list \<Rightarrow> 'a list \<Rightarrow> py_error + 'b" where
  "r_squared_with A y estimated =
     bind_err (sum_of_squares_with A y estimated [0..<length estimated] (py_zero A))
       (\<lambda>sum_of_squares.
          if length estimated = 0 then Inl ZeroDivisionError
          else bind_err (py_div_len A sum_of_squares (length estimated)) (\<lambda>variance.
                 Inr (np_one_minus A (np_rdiv A variance (np_var_of A y)))))"

subsection \<open>The exact arithmetic\<close>

text \<open>
  The functions below are the same code over exact reals: a list of finite numbers is a
  \<open>real list\<close>, nothing is rounded and nothing overflows, as when the numbers are small
  integers and the quotients are dyadic. The float effect that is kept is division by zero
  inside numpy: a warning and an infinity or a NaN, never an exception.
\<close>

text \<open>
  \<^verbatim>\<open>numpy.var\<close>: the mean of the squared deviations from the mean, both sums
  divided by the number of elements; on an empty array the result is NaN.
\<close>

definition np_var :: "real list \<Rightarrow> pyfloat" where
  "np_var a =
     (if a = [] then NaN
      else (let n = real (length a);
                arrmean = sum_list a / n;
                x = map (\<lambda>v. (v - arrmean)\<^sup>2) a
            in Finite (sum_list x / n)))"

text \<open>A finite float divided by a numpy float; the zero of \<^verbatim>\<open>numpy.var\<close> is positive.\<close>

fun np_divide :: "real \<Rightarrow> pyfloat \<Rightarrow> pyfloat" where
  "np_divide a (Finite b) =
     (if b \<noteq> 0 then Finite (a / b)
      else if a = 0 then NaN
      else if 0 < a then PosInf else NegInf)"
| "np_divide a PosInf = Finite 0"
| "np_divide a NegInf = Finite 0"
| "np_divide a NaN = NaN"

fun one_minus :: "pyfloat \<Rightarrow> pyfloat" where
  "one_minus (Finite v) = Finite (1 - v)"
| "one_minus PosInf = NegInf"
| "one_minus NegInf = PosInf"
| "one_minus NaN = NaN"

text \<open>
  The loop of \<^verbatim>\<open>r_squared\<close> over \<^verbatim>\<open>range(len(estimated))\<close>: \<^verbatim>\<open>estimated[i]\<close>
  is read first, then \<^verbatim>\<open>y[i]\<close>, which raises when \<open>y\<close> is the shorter list.
\<close>

fun sum_of_squares_loop ::
  "real list \<Rightarrow> real list \<Rightarrow> nat list \<Rightarrow> real \<Rightarrow> py_error + real" where
  "sum_of_squares_loop y estimated [] acc = Inr acc"
| "sum_of_squares_loop y estimated (i # is) acc =
     bind_err (getitem estimated i) (\<lambda>e.
     bind_err (getitem y i) (\<lambda>v.
     sum_of_squares_loop y estimated is (acc + (e - v)\<^sup>2)))"

text \<open>
  \<^verbatim>\<open>sum_of_squares / len(estimated)\<close> with no element divides the integer 0 by the
  integer 0. The second division is numpy's.
\<close>

definition r_squared :: "real list \<Rightarrow> real list \<Rightarrow> py_error + pyfloat" where
  "r_squared y estimated =
     bind_err (sum_of_squares_loop y estimated [0..<length estimated] 0) (\<lambda>sum_of_squares.
       if length estimated = 0 then Inl ZeroDivisionError
       else (let variance = sum_of_squares / real (length estimated)
             in Inr (one_minus (np_divide variance (np_var y)))))"

text \<open>The exact arithmetic as an instance of the parameter.\<close>

definition exact_arith :: "(real, pyfloat) arith" where
  "exact_arith =
     \<lparr>py_zero = 0,
      py_sub = (\<lambda>a b. a - b),
      py_square = (\<lambda>a. Inr (a\<^sup>2)),
      py_add = (\<lambda>a b. a + b),
      py_div_len = (\<lambda>s n. Inr (s / real n)),
      np_var_of = np_var,
      np_rdiv = np_divide,
      np_one_minus = one_minus\<rparr>"

subsection \<open>Evaluation and fitting\<close>

text \<open>\<^verbatim>\<open>pylab.polyval(p, x)\<close> at one point: Horner's scheme, highest degree first.\<close>

definition polyval :: "real list \<Rightarrow> real \<Rightarrow> real" where
  "polyval p x = foldl (\<lambda>acc pv. acc * x + pv) 0 p"

text \<open>
  What one pass of the loop of \<^verbatim>\<open>evaluate_models_on_training\<close> draws: the points,
  the curve and the value printed in the title.
\<close>

record plot =
  plot_x :: "real list"
  plot_y :: "real list"
  plot_estimates :: "real list"
  title_r_sqr :: pyfloat

text \<open>
  The local variable \<^verbatim>\<open>r_sqr\<close> is \<open>None\<close> until it is first assigned; it is
  assigned only under \<^verbatim>\<open>len(model) == 2\<close> and read for every model.
  \<^verbatim>\<open>pylab.plot(x, y, 'bo')\<close> raises \<^verbatim>\<open>ValueError\<close> on lists of different lengths.
\<close>

fun evaluate_loop ::
  "real list \<Rightarrow> real list \<Rightarrow> real list list \<Rightarrow> pyfloat option \<Rightarrow> plot list
   \<Rightarrow> py_error + plot list" where
  "evaluate_loop x y [] r_sqr fig = Inr fig"
| "evaluate_loop x y (model # models) r_sqr fig =
     (let estimates = map (polyval model) x
      in bind_err (if length model = 2
                   then bind_err (r_squared y estimates) (\<lambda>r. Inr (Some r))
                   else Inr r_sqr) (\<lambda>r_sqr'.
           if length x \<noteq> length y then Inl ValueError
           else (case r_sqr' of
                   None \<Rightarrow> Inl UnboundLocalError
                 | Some r \<Rightarrow>
                     evaluate_loop x y models r_sqr'
                       (fig @ [\<lparr>plot_x = x, plot_y = y, plot_estimates = estimates,
                                title_r_sqr = r\<rparr>]))))"

definition evaluate_models_on_training ::
  "real list \<Rightarrow> real list \<Rightarrow> real list list \<Rightarrow> py_error + plot list" where
  "evaluate_models_on_training x y models = evaluate_loop x y models None []"

text \<open>
  \<^verbatim>\<open>pylab.polyfit(x, y, deg)\<close> is library code; what is used of it is its contract:
  the result has \<open>deg + 1\<close> coefficients, highest degree first, and no other
  polynomial of that degree has a smaller sum of squared residuals.
\<close>

definition residual_sum :: "real list \<Rightarrow> real list \<Rightarrow> real list \<Rightarrow> real" where
  "residual_sum x y m = (\<Sum>i<length x. (polyval m (x ! i) - y ! i)\<^sup>2)"

definition is_polyfit :: "real list \<Rightarrow> real list \<Rightarrow> nat \<Rightarrow> real list \<Rightarrow> bool" where
  "is_polyfit x y deg m \<longleftrightarrow>
     length m = deg + 1 \<and>
     (\<forall>m'. length m' = deg + 1 \<longrightarrow> residual_sum x y m \<le> residual_sum x y m')"

text \<open>\<^verbatim>\<open>generate_models\<close>: one fitted model for each degree, in the order of \<open>degs\<close>.\<close>

definition generate_models ::
  "real list \<Rightarrow> real list \<Rightarrow> nat list \<Rightarrow> real list list \<Rightarrow> bool" where
  "generate_models x y degs models \<longleftrightarrow> list_all2 (is_polyfit x y) degs models"

section \<open>Vocabulary of the properties\<close>

type_synonym observation = "string \<times> int \<times> int \<times> int \<times> pyfloat"

fun key_of :: "observation \<Rightarrow> string \<times> int \<times> int \<times> int" where
  "key_of (c, y, m, d, t) = (c, y, m, d)"

fun temp_of :: "observation \<Rightarrow> pyfloat" where
  "temp_of (c, y, m, d, t) = t"

text \<open>The records of a file: what each line after the header parses to.\<close>

definition line_records :: "string list \<Rightarrow> string list \<Rightarrow> observation list" where
  "line_records header lines =
     concat (map (\<lambda>line. case parse_line header (split_comma (strip line)) of
                            Inl e \<Rightarrow> [] | Inr r \<Rightarrow> [r]) lines)"

definition records :: "string list \<Rightarrow> observation list" where
  "records file_lines =
     (case file_lines of
        [] \<Rightarrow> []
      | h # rest \<Rightarrow> line_records (split_comma (strip h)) rest)"

text \<open>The records with one key, in the order of the file.\<close>

definition with_key :: "string \<times> int \<times> int \<times> int \<Rightarrow> observation list \<Rightarrow> observation list" where
  "with_key k rs = filter (\<lambda>r. key_of r = k) rs"

text \<open>The levels of a store below a city, a year and a month; empty where the path is absent.\<close>

definition years_of :: "rawdata \<Rightarrow> string \<Rightarrow> year_map" where
  "years_of rd c = (case rd c of None \<Rightarrow> Map.empty | Some ys \<Rightarrow> ys)"

definition months_of :: "rawdata \<Rightarrow> string \<Rightarrow> int \<Rightarrow> month_map" where
  "months_of rd c y = (case years_of rd c y of None \<Rightarrow> Map.empty | Some ms \<Rightarrow> ms)"

definition days_of :: "rawdata \<Rightarrow> string \<Rightarrow> int \<Rightarrow> int \<Rightarrow> day_map" where
  "days_of rd c y m = (case months_of rd c y m of None \<Rightarrow> Map.empty | Some dm \<Rightarrow> dm)"

text \<open>
  The days of a city and year that the store holds and that the calendar loop of
  \<^verbatim>\<open>get_yearly_temp\<close> visits, as (month, day) pairs.
\<close>

definition calendar_days :: "rawdata \<Rightarrow> string \<Rightarrow> int \<Rightarrow> (int \<times> int) set" where
  "calendar_days rd c y =
     {(m, d). m \<in> {1..12} \<and> d \<in> {1..31} \<and> d \<in> dom (days_of rd c y m)}"

text \<open>All the (month, day) pairs that the store holds for a city and year.\<close>

definition recorded_days :: "rawdata \<Rightarrow> string \<Rightarrow> int \<Rightarrow> (int \<times> int) set" where
  "recorded_days rd c y = {(m, d). d \<in> dom (days_of rd c y m)}"

text \<open>
  A file with one observation on the first of each month of 1961, and one more whose
  date field is \<^verbatim>\<open>19610100\<close>: eight digits, so the pattern matches, with day 0.
\<close>

definition year_file :: "string list" where
  "year_file =
     [''DATE,CITY,TEMP'', ''19610100,BOSTON,99'',
      ''19610101,BOSTON,1'', ''19610201,BOSTON,2'', ''19610301,BOSTON,3'',
      ''19610401,BOSTON,4'', ''19610501,BOSTON,5'', ''19610601,BOSTON,6'',
      ''19610701,BOSTON,7'', ''19610801,BOSTON,8'', ''19610901,BOSTON,9'',
      ''19611001,BOSTON,10'', ''19611101,BOSTON,11'', ''19611201,BOSTON,12'']"

text \<open>
  The squared differences of two lists taken in step, in order; the first square that
  raises ends the computation.
\<close>

fun squares_of :: "('a, 'b) arith \<Rightarrow> ('a \<times> 'a) list \<Rightarrow> py_error + 'a list" where
  "squares_of A [] = Inr []"
| "squares_of A ((e, v) # ps) =
     bind_err (py_square A (py_sub A e v)) (\<lambda>s.
     bind_err (squares_of A ps) (\<lambda>ss. Inr (s # ss)))"

text \<open>
  The mean of the squared differences: their sum, added up from zero in the order of the
  lists, divided by the number of estimates.
\<close>

definition mean_square :: "('a, 'b) arith \<Rightarrow> 'a list \<Rightarrow> 'a list \<Rightarrow> py_error + 'a" where
  "mean_square A y estimated =
     bind_err (squares_of A (zip estimated y)) (\<lambda>ss.
       py_div_len A (foldl (py_add A) (py_zero A) ss) (length estimated))"

text \<open>The population variance in the words of the specification.\<close>

definition mean :: "real list \<Rightarrow> real" where
  "mean y = (\<Sum>i<length y. y ! i) / real (length y)"

definition population_variance :: "real list \<Rightarrow> real" where
  "population_variance y = (\<Sum>i<length y. (y ! i - mean y)\<^sup>2) / real (length y)"

section \<open>The store: levels, loading, lookups\<close>

lemma years_of_store_record:
  "years_of (store_record rd c y m d t) c' =
     (if c' = c then (years_of rd c)(y \<mapsto> (months_of rd c y)(m \<mapsto> (days_of rd c y m)(d \<mapsto> t)))
      else years_of rd c')"
  by (simp add: years_of_def months_of_def days_of_def store_record_def Let_def)

lemma months_of_store_record:
  "months_of (store_record rd c y m d t) c' y' =
     (if c' = c \<and> y' = y then (months_of rd c y)(m \<mapsto> (days_of rd c y m)(d \<mapsto> t))
      else months_of rd c' y')"
  by (simp add: months_of_def [of "store_record rd c y m d t"] years_of_store_record)
     (simp add: months_of_def)

lemma days_of_store_record:
  "days_of (store_record rd c y m d t) c' y' m' =
     (if c' = c \<and> y' = y \<and> m' = m then (days_of rd c y m)(d \<mapsto> t)
      else days_of rd c' y' m')"
  by (simp add: days_of_def [of "store_record rd c y m d t"] months_of_store_record)
     (simp add: days_of_def)

lemma dom_store_record: "dom (store_record rd c y m d t) = insert c (dom rd)"
  by (simp add: store_record_def Let_def)

lemma get_daily_temp_levels:
  "get_daily_temp rd c m d y =
     (if c \<notin> dom rd then Inl (AssertionError City_not_available)
      else if y \<notin> dom (years_of rd c) then Inl (AssertionError Year_not_available)
      else if m \<notin> dom (months_of rd c y) then Inl (AssertionError Month_not_available)
      else (case days_of rd c y m d of
              None \<Rightarrow> Inl (AssertionError Day_not_available)
            | Some t \<Rightarrow> Inr t))"
  by (auto simp: get_daily_temp_def years_of_def months_of_def days_of_def dom_def
           split: option.splits)

lemma line_records_Cons:
  "line_records header (line # rest) =
     (case parse_line header (split_comma (strip line)) of Inl e \<Rightarrow> [] | Inr r \<Rightarrow> [r])
     @ line_records header rest"
  by (simp add: line_records_def)

lemma line_records_Nil: "line_records header [] = []"
  by (simp add: line_records_def)

lemma load_lines_dom:
  "load_lines header lines rd = Inr rd' \<Longrightarrow>
   dom rd' = dom rd \<union> {c. \<exists>y m d t. (c, y, m, d, t) \<in> set (line_records header lines)}"
proof (induction lines arbitrary: rd)
  case Nil
  then show ?case by (simp add: line_records_Nil)
next
  case (Cons line rest)
  from Cons.prems obtain c y m d t where
    p: "parse_line header (split_comma (strip line)) = Inr (c, y, m, d, t)" and
    l: "load_lines header rest (store_record rd c y m d t) = Inr rd'"
    by (auto split: sum.splits)
  from Cons.IH [OF l] show ?case
    by (auto simp: line_records_Cons p dom_store_record)
qed

lemma load_lines_years:
  "load_lines header lines rd = Inr rd' \<Longrightarrow>
   dom (years_of rd' c) =
     dom (years_of rd c) \<union> {y. \<exists>m d t. (c, y, m, d, t) \<in> set (line_records header lines)}"
proof (induction lines arbitrary: rd)
  case Nil
  then show ?case by (simp add: line_records_Nil)
next
  case (Cons line rest)
  from Cons.prems obtain c1 y1 m1 d1 t1 where
    p: "parse_line header (split_comma (strip line)) = Inr (c1, y1, m1, d1, t1)" and
    l: "load_lines header rest (store_record rd c1 y1 m1 d1 t1) = Inr rd'"
    by (auto split: sum.splits)
  from Cons.IH [OF l] show ?case
    by (auto simp: line_records_Cons p years_of_store_record split: if_splits)
qed

lemma load_lines_months:
  "load_lines header lines rd = Inr rd' \<Longrightarrow>
   dom (months_of rd' c y) =
     dom (months_of rd c y) \<union> {m. \<exists>d t. (c, y, m, d, t) \<in> set (line_records header lines)}"
proof (induction lines arbitrary: rd)
  case Nil
  then show ?case by (simp add: line_records_Nil)
next
  case (Cons line rest)
  from Cons.prems obtain c1 y1 m1 d1 t1 where
    p: "parse_line header (split_comma (strip line)) = Inr (c1, y1, m1, d1, t1)" and
    l: "load_lines header rest (store_record rd c1 y1 m1 d1 t1) = Inr rd'"
    by (auto split: sum.splits)
  from Cons.IH [OF l] show ?case
    by (auto simp: line_records_Cons p months_of_store_record split: if_splits)
qed

lemma load_lines_days:
  "load_lines header lines rd = Inr rd' \<Longrightarrow>
   days_of rd' c y m d =
     (case with_key (c, y, m, d) (line_records header lines) of
        [] \<Rightarrow> days_of rd c y m d
      | r # rs \<Rightarrow> Some (temp_of (last (r # rs))))"
proof (induction lines arbitrary: rd)
  case Nil
  then show ?case by (simp add: line_records_Nil with_key_def)
next
  case (Cons line rest)
  from Cons.prems obtain c1 y1 m1 d1 t1 where
    p: "parse_line header (split_comma (strip line)) = Inr (c1, y1, m1, d1, t1)" and
    l: "load_lines header rest (store_record rd c1 y1 m1 d1 t1) = Inr rd'"
    by (auto split: sum.splits)
  from Cons.IH [OF l] show ?case
    by (auto simp: line_records_Cons p days_of_store_record with_key_def split: if_splits list.splits)
qed

lemma load_lines_succeeds:
  "\<forall>line\<in>set lines. \<exists>r. parse_line header (split_comma (strip line)) = Inr r \<Longrightarrow>
   \<exists>rd'. load_lines header lines rd = Inr rd'"
proof (induction lines arbitrary: rd)
  case Nil
  then show ?case by simp
next
  case (Cons line rest)
  then obtain r where p: "parse_line header (split_comma (strip line)) = Inr r"
    by auto
  obtain c y m d t where r: "r = (c, y, m, d, t)"
    by (cases r) auto
  from Cons.IH [of "store_record rd c y m d t"] Cons.prems show ?case
    by (simp add: p r)
qed

lemma load_lines_fails:
  "load_lines header lines rd = Inl e \<Longrightarrow>
   \<exists>line\<in>set lines. parse_line header (split_comma (strip line)) = Inl e"
proof (induction lines arbitrary: rd)
  case Nil
  then show ?case by simp
next
  case (Cons line rest)
  then show ?case by (auto split: sum.splits)
qed

lemma with_key_mem:
  "r \<in> set rs \<Longrightarrow> with_key (key_of r) rs \<noteq> []"
  by (auto simp: with_key_def filter_empty_conv)

lemma Climate_init_daily:
  assumes "Climate_init file_lines = Inr rd" and "(c, y, m, d, t) \<in> set (records file_lines)"
  shows "get_daily_temp rd c m d y =
           Inr (temp_of (last (with_key (c, y, m, d) (records file_lines))))"
proof -
  from assms obtain h rest where fl: "file_lines = h # rest"
    by (cases file_lines) (auto simp: records_def)
  let ?hd = "split_comma (strip h)"
  let ?rs = "line_records ?hd rest"
  from assms fl have l: "load_lines ?hd rest Map.empty = Inr rd"
    and mem: "(c, y, m, d, t) \<in> set ?rs"
    by (simp_all add: Climate_init_def records_def)
  have rs: "records file_lines = ?rs"
    by (simp add: fl records_def)
  from mem have c: "c \<in> dom rd"
    using load_lines_dom [OF l] by blast
  from mem have y: "y \<in> dom (years_of rd c)"
    using load_lines_years [OF l, of c] by blast
  from mem have m: "m \<in> dom (months_of rd c y)"
    using load_lines_months [OF l, of c y] by blast
  from with_key_mem [OF mem] have ne: "with_key (c, y, m, d) ?rs \<noteq> []"
    by simp
  then have d: "days_of rd c y m d = Some (temp_of (last (with_key (c, y, m, d) ?rs)))"
    using load_lines_days [OF l, of c y m d] by (simp split: list.splits)
  from c y m d show ?thesis
    by (simp add: get_daily_temp_levels rs)
qed

lemma yearly_days_present:
  "ym m = Some dm \<Longrightarrow>
   yearly_days ym m ds temps = Inr (temps @ map (\<lambda>d. the (dm d)) (filter (\<lambda>d. dm d \<noteq> None) ds))"
  by (induction ds arbitrary: temps) auto

lemma yearly_days_absent:
  "ym m = None \<Longrightarrow> ds \<noteq> [] \<Longrightarrow> yearly_days ym m ds temps = Inl KeyError"
  by (cases ds) auto

lemma upto_1_31_nonempty: "[1..31] \<noteq> ([] :: int list)"
  by (simp add: upto.simps)

lemma yearly_months_present:
  "\<forall>m\<in>set ms. ym m \<noteq> None \<Longrightarrow>
   yearly_months ym ms temps =
     Inr (temps @ concat (map (\<lambda>m. map (\<lambda>d. the (the (ym m) d))
                                  (filter (\<lambda>d. the (ym m) d \<noteq> None) [1..31])) ms))"
proof (induction ms arbitrary: temps)
  case Nil
  then show ?case by simp
next
  case (Cons m ms)
  then obtain dm where dm: "ym m = Some dm" by auto
  from Cons show ?case
    by (simp add: yearly_days_present [of ym m dm] dm)
qed

lemma yearly_months_absent:
  "\<exists>m\<in>set ms. ym m = None \<Longrightarrow> yearly_months ym ms temps = Inl KeyError"
proof (induction ms arbitrary: temps)
  case Nil
  then show ?case by simp
next
  case (Cons m ms)
  show ?case
  proof (cases "ym m")
    case None
    then show ?thesis
      by (simp add: yearly_days_absent [of ym m "[1..31]"] upto_1_31_nonempty)
  next
    case (Some dm)
    with Cons show ?thesis
      by (simp add: yearly_days_present [of ym m dm])
  qed
qed

subsection \<open>Evaluating the loader on concrete files\<close>

lemma to_double_small:
  assumes "\<bar>r\<bar> \<le> 1000000"
  shows "to_double r = Finite r"
proof -
  have "(1000000::real) < double_limit"
    by (simp add: double_limit_def)
  with assms have "r < double_limit" and "- double_limit < r"
    by linarith+
  then show ?thesis
    by (simp add: to_double_def)
qed

lemmas eval_defs = Climate_init_def strip_def is_space_def parse_line_def bind_err_def getitem_def
  re_match_date_def is_digit_def py_float_def split_sign_def lower_def decimal_def digits_val_def
  digit_val_def py_int_def store_record_def Let_def to_double_small

lemma example_file:
  "Climate_init [''DATE,CITY,TEMP'', ''19610110,BOSTON,3'', ''19610110,BOSTON,5'']
     = Inr [''BOSTON'' \<mapsto> [1961 \<mapsto> [1 \<mapsto> [10 \<mapsto> Finite 5]]]]"
  by (simp add: eval_defs)

lemma example_records:
  "records [''DATE,CITY,TEMP'', ''19610110,BOSTON,3'', ''19610110,BOSTON,5'']
     = [(''BOSTON'', 1961, 1, 10, Finite 3), (''BOSTON'', 1961, 1, 10, Finite 5)]"
  by (simp add: records_def line_records_def eval_defs)

lemma Climate_init_levels:
  assumes "Climate_init file_lines = Inr rd"
  shows "(c \<in> dom rd \<longleftrightarrow> (\<exists>y m d t. (c, y, m, d, t) \<in> set (records file_lines)))
       \<and> (y \<in> dom (years_of rd c) \<longleftrightarrow> (\<exists>m d t. (c, y, m, d, t) \<in> set (records file_lines)))
       \<and> (m \<in> dom (months_of rd c y) \<longleftrightarrow> (\<exists>d t. (c, y, m, d, t) \<in> set (records file_lines)))
       \<and> (d \<in> dom (days_of rd c y m) \<longleftrightarrow> (\<exists>t. (c, y, m, d, t) \<in> set (records file_lines)))
       \<and> (\<forall>ys. rd c = Some ys \<longrightarrow> ys \<noteq> Map.empty)
       \<and> (\<forall>ms. years_of rd c y = Some ms \<longrightarrow> ms \<noteq> Map.empty)
       \<and> (\<forall>dm. months_of rd c y m = Some dm \<longrightarrow> dm \<noteq> Map.empty)"
proof (cases file_lines)
  case Nil
  with assms have "rd = Map.empty"
    by (simp add: Climate_init_def)
  then show ?thesis
    by (simp add: Nil records_def years_of_def months_of_def days_of_def)
next
  case (Cons h rest)
  let ?rs = "line_records (split_comma (strip h)) rest"
  from assms Cons have l: "load_lines (split_comma (strip h)) rest Map.empty = Inr rd"
    by (simp add: Climate_init_def)
  have rs: "records file_lines = ?rs"
    by (simp add: Cons records_def)
  have e: "years_of Map.empty c = Map.empty" "months_of Map.empty c y = Map.empty"
    "days_of Map.empty c y m = Map.empty"
    by (simp_all add: years_of_def months_of_def days_of_def)
  have c: "c \<in> dom rd \<longleftrightarrow> (\<exists>y m d t. (c, y, m, d, t) \<in> set ?rs)"
    using load_lines_dom [OF l] by auto
  have y: "\<And>c y. y \<in> dom (years_of rd c) \<longleftrightarrow> (\<exists>m d t. (c, y, m, d, t) \<in> set ?rs)"
    using load_lines_years [OF l] by (auto simp: years_of_def)
  have m: "\<And>c y m. m \<in> dom (months_of rd c y) \<longleftrightarrow> (\<exists>d t. (c, y, m, d, t) \<in> set ?rs)"
    using load_lines_months [OF l] by (auto simp: years_of_def months_of_def)
  have d: "d \<in> dom (days_of rd c y m) \<longleftrightarrow> (\<exists>t. (c, y, m, d, t) \<in> set ?rs)"
  proof
    assume "d \<in> dom (days_of rd c y m)"
    then have "with_key (c, y, m, d) ?rs \<noteq> []"
      using load_lines_days [OF l, of c y m d] e by (auto split: list.splits)
    then obtain r where "r \<in> set ?rs" "key_of r = (c, y, m, d)"
      by (auto simp: with_key_def filter_empty_conv)
    then show "\<exists>t. (c, y, m, d, t) \<in> set ?rs"
      by (cases r rule: prod_cases5) auto
  next
    assume "\<exists>t. (c, y, m, d, t) \<in> set ?rs"
    then obtain t where "(c, y, m, d, t) \<in> set ?rs" ..
    from with_key_mem [OF this] show "d \<in> dom (days_of rd c y m)"
      using load_lines_days [OF l, of c y m d] by (auto split: list.splits)
  qed
  have n1: "\<forall>ys. rd c = Some ys \<longrightarrow> ys \<noteq> Map.empty"
  proof (intro allI impI)
    fix ys assume ys: "rd c = Some ys"
    then have "c \<in> dom rd" by auto
    with c obtain y' m' d' t' where "(c, y', m', d', t') \<in> set ?rs" by auto
    then have "y' \<in> dom (years_of rd c)" using y by blast
    with ys show "ys \<noteq> Map.empty" by (auto simp: years_of_def)
  qed
  have n2: "\<forall>ms. years_of rd c y = Some ms \<longrightarrow> ms \<noteq> Map.empty"
  proof (intro allI impI)
    fix ms assume ms: "years_of rd c y = Some ms"
    then have "y \<in> dom (years_of rd c)" by auto
    with y obtain m' d' t' where "(c, y, m', d', t') \<in> set ?rs" by auto
    then have "m' \<in> dom (months_of rd c y)" using m by blast
    with ms show "ms \<noteq> Map.empty" by (auto simp: months_of_def)
  qed
  have n3: "\<forall>dm. months_of rd c y m = Some dm \<longrightarrow> dm \<noteq> Map.empty"
  proof (intro allI impI)
    fix dm assume dm: "months_of rd c y m = Some dm"
    then have "m \<in> dom (months_of rd c y)" by auto
    with m obtain d' t' where r: "(c, y, m, d', t') \<in> set ?rs" by auto
    from with_key_mem [OF r] have "d' \<in> dom (days_of rd c y m)"
      using load_lines_days [OF l, of c y m d'] by (auto split: list.splits)
    with dm show "dm \<noteq> Map.empty" by (auto simp: days_of_def)
  qed
  from c y m d n1 n2 n3 show ?thesis
    unfolding rs by blast
qed

subsection \<open>The calendar loop\<close>

lemma sorted_map_Pair: "sorted (map (Pair (m::int)) (ds::int list)) = sorted ds"
  by (induction ds) auto

lemma sorted_calendar:
  "sorted ms \<Longrightarrow> distinct ms \<Longrightarrow> (\<And>m. sorted (f m)) \<Longrightarrow>
   sorted (concat (map (\<lambda>m::int. map (Pair m) (f m :: int list)) ms))"
proof (induction ms)
  case Nil
  then show ?case by simp
next
  case (Cons m ms)
  have 1: "sorted (map (Pair m) (f m))"
    using Cons.prems(3) by (simp add: sorted_map_Pair)
  have 2: "sorted (concat (map (\<lambda>m. map (Pair m) (f m)) ms))"
    using Cons by simp
  have 3: "\<forall>x\<in>set (map (Pair m) (f m)).
             \<forall>y\<in>set (concat (map (\<lambda>m. map (Pair m) (f m)) ms)). x \<le> y"
    using Cons.prems(1,2) by (auto simp: order_less_le)
  from 1 2 3 show ?case
    by (simp add: sorted_append)
qed

lemma distinct_calendar:
  "distinct ms \<Longrightarrow> (\<And>m. distinct (f m)) \<Longrightarrow>
   distinct (concat (map (\<lambda>m::int. map (Pair m) (f m :: int list)) ms))"
proof (induction ms)
  case Nil
  then show ?case by simp
next
  case (Cons m ms)
  then show ?case
    by (auto simp: distinct_map inj_on_def)
qed

lemma map_calendar:
  "map g (concat (map (\<lambda>m. map (Pair m) (F m)) ms)) =
     concat (map (\<lambda>m. map (\<lambda>d. g (m, d)) (F m)) ms)"
  by (induction ms) auto

lemma set_calendar:
  "set (concat (map (\<lambda>m. map (Pair m) (F m)) ms)) = {(m, d). m \<in> set ms \<and> d \<in> set (F m)}"
  by (induction ms) auto

lemma get_yearly_temp_Inr:
  assumes "get_yearly_temp rd c y = Inr ts"
  shows "ts = map (\<lambda>(m, d). the (days_of rd c y m d))
                (concat (map (\<lambda>m. map (Pair m) (filter (\<lambda>d. d \<in> dom (days_of rd c y m)) [1..31]))
                   [1..12]))"
proof -
  from assms obtain ys ym where ys: "rd c = Some ys" and ym: "ys y = Some ym"
    and l: "yearly_months ym [1..12] [] = Inr ts"
    by (auto simp: get_yearly_temp_def split: option.splits)
  have all: "\<forall>m\<in>set [1..12]. ym m \<noteq> None"
  proof (rule ccontr)
    assume "\<not> (\<forall>m\<in>set [1..12]. ym m \<noteq> None)"
    then have "\<exists>m\<in>set [1..12]. ym m = None" by simp
    from yearly_months_absent [OF this, of "[]"] l show False by simp
  qed
  have d: "\<And>m. days_of rd c y m = (case ym m of None \<Rightarrow> Map.empty | Some dm \<Rightarrow> dm)"
    by (simp add: days_of_def months_of_def years_of_def ys ym)
  have "ts = concat (map (\<lambda>m. map (\<lambda>d. the (the (ym m) d))
                                  (filter (\<lambda>d. the (ym m) d \<noteq> None) [1..31])) [1..12])"
    using yearly_months_present [OF all, of "[]"] l by simp
  also have "\<dots> = concat (map (\<lambda>m. map (\<lambda>d. the (days_of rd c y m d))
                                  (filter (\<lambda>d. d \<in> dom (days_of rd c y m)) [1..31])) [1..12])"
  proof (rule arg_cong [where f = concat], rule map_cong [OF refl])
    fix m assume "m \<in> set [1..12]"
    with all obtain dm where "ym m = Some dm" by fastforce
    then show "map (\<lambda>d. the (the (ym m) d)) (filter (\<lambda>d. the (ym m) d \<noteq> None) [1..31]) =
               map (\<lambda>d. the (days_of rd c y m d)) (filter (\<lambda>d. d \<in> dom (days_of rd c y m)) [1..31])"
      by (simp add: d dom_def)
  qed
  finally show ?thesis
    by (simp add: map_calendar)
qed

lemma calendar_list:
  "sorted_list_of_set (calendar_days rd c y) =
     concat (map (\<lambda>m. map (Pair m) (filter (\<lambda>d. d \<in> dom (days_of rd c y m)) [1..31])) [1..12])"
  (is "_ = ?ps")
proof -
  have s: "sorted ?ps"
    by (rule sorted_calendar) (simp_all add: sorted_wrt_filter)
  have d: "distinct ?ps"
    by (rule distinct_calendar) simp_all
  have "set ?ps = calendar_days rd c y"
    unfolding set_calendar calendar_days_def
    by (rule Collect_cong) auto
  with sorted_list_of_set.idem_if_sorted_distinct [OF s d] show ?thesis
    by simp
qed


subsection \<open>The file \<open>year_file\<close>, line by line\<close>

lemma load_lines_step:
  "parse_line header (split_comma (strip line)) = Inr (c, y, m, d, t) \<Longrightarrow>
   store_record rd c y m d t = rd' \<Longrightarrow>
   load_lines header (line # rest) rd = load_lines header rest rd'"
  by simp

lemma year_file_parse:
  "parse_line (split_comma (strip ''DATE,CITY,TEMP'')) (split_comma (strip ''19610100,BOSTON,99''))
     = Inr (''BOSTON'', 1961, 1, 0, Finite 99)"
  "parse_line (split_comma (strip ''DATE,CITY,TEMP'')) (split_comma (strip ''19610101,BOSTON,1''))
     = Inr (''BOSTON'', 1961, 1, 1, Finite 1)"
  "parse_line (split_comma (strip ''DATE,CITY,TEMP'')) (split_comma (strip ''19610201,BOSTON,2''))
     = Inr (''BOSTON'', 1961, 2, 1, Finite 2)"
  "parse_line (split_comma (strip ''DATE,CITY,TEMP'')) (split_comma (strip ''19610301,BOSTON,3''))
     = Inr (''BOSTON'', 1961, 3, 1, Finite 3)"
  "parse_line (split_comma (strip ''DATE,CITY,TEMP'')) (split_comma (strip ''19610401,BOSTON,4''))
     = Inr (''BOSTON'', 1961, 4, 1, Finite 4)"
  "parse_line (split_comma (strip ''DATE,CITY,TEMP'')) (split_comma (strip ''19610501,BOSTON,5''))
     = Inr (''BOSTON'', 1961, 5, 1, Finite 5)"
  "parse_line (split_comma (strip ''DATE,CITY,TEMP'')) (split_comma (strip ''19610601,BOSTON,6''))
     = Inr (''BOSTON'', 1961, 6, 1, Finite 6)"
  "parse_line (split_comma (strip ''DATE,CITY,TEMP'')) (split_comma (strip ''19610701,BOSTON,7''))
     = Inr (''BOSTON'', 1961, 7, 1, Finite 7)"
  "parse_line (split_comma (strip ''DATE,CITY,TEMP'')) (split_comma (strip ''19610801,BOSTON,8''))
     = Inr (''BOSTON'', 1961, 8, 1, Finite 8)"
  "parse_line (split_comma (strip ''DATE,CITY,TEMP'')) (split_comma (strip ''19610901,BOSTON,9''))
     = Inr (''BOSTON'', 1961, 9, 1, Finite 9)"
  "parse_line (split_comma (strip ''DATE,CITY,TEMP'')) (split_comma (strip ''19611001,BOSTON,10''))
     = Inr (''BOSTON'', 1961, 10, 1, Finite 10)"
  "parse_line (split_comma (strip ''DATE,CITY,TEMP'')) (split_comma (strip ''19611101,BOSTON,11''))
     = Inr (''BOSTON'', 1961, 11, 1, Finite 11)"
  "parse_line (split_comma (strip ''DATE,CITY,TEMP'')) (split_comma (strip ''19611201,BOSTON,12''))
     = Inr (''BOSTON'', 1961, 12, 1, Finite 12)"
  by (simp_all add: eval_defs)

lemma year_file_store:
  "store_record Map.empty ''BOSTON'' 1961 1 0 (Finite 99)
     = [''BOSTON'' \<mapsto> [1961 \<mapsto> [1 \<mapsto> [0 \<mapsto> Finite 99]]]]"
  "store_record [''BOSTON'' \<mapsto> [1961 \<mapsto> [1 \<mapsto> [0 \<mapsto> Finite 99]]]] ''BOSTON'' 1961 1 1 (Finite 1)
     = [''BOSTON'' \<mapsto> [1961 \<mapsto> [1 \<mapsto> [0 \<mapsto> Finite 99, 1 \<mapsto> Finite 1]]]]"
  "store_record [''BOSTON'' \<mapsto> [1961 \<mapsto> [1 \<mapsto> [0 \<mapsto> Finite 99, 1 \<mapsto> Finite 1]]]] ''BOSTON'' 1961 2 1 (Finite 2)
     = [''BOSTON'' \<mapsto> [1961 \<mapsto> [1 \<mapsto> [0 \<mapsto> Finite 99, 1 \<mapsto> Finite 1], 2 \<mapsto> [1 \<mapsto> Finite 2]]]]"
  "store_record [''BOSTON'' \<mapsto> [1961 \<mapsto> [1 \<mapsto> [0 \<mapsto> Finite 99, 1 \<mapsto> Finite 1], 2 \<mapsto> [1 \<mapsto> Finite 2]]]] ''BOSTON'' 1961 3 1 (Finite 3)
     = [''BOSTON'' \<mapsto> [1961 \<mapsto> [1 \<mapsto> [0 \<mapsto> Finite 99, 1 \<mapsto> Finite 1], 2 \<mapsto> [1 \<mapsto> Finite 2], 3 \<mapsto> [1 \<mapsto> Finite 3]]]]"
  "store_record [''BOSTON'' \<mapsto> [1961 \<mapsto> [1 \<mapsto> [0 \<mapsto> Finite 99, 1 \<mapsto> Finite 1], 2 \<mapsto> [1 \<mapsto> Finite 2], 3 \<mapsto> [1 \<mapsto> Finite 3]]]] ''BOSTON'' 1961 4 1 (Finite 4)
     = [''BOSTON'' \<mapsto> [1961 \<mapsto> [1 \<mapsto> [0 \<mapsto> Finite 99, 1 \<mapsto> Finite 1], 2 \<mapsto> [1 \<mapsto> Finite 2], 3 \<mapsto> [1 \<mapsto> Finite 3], 4 \<mapsto> [1 \<mapsto> Finite 4]]]]"
  "store_record [''BOSTON'' \<mapsto> [1961 \<mapsto> [1 \<mapsto> [0 \<mapsto> Finite 99, 1 \<mapsto> Finite 1], 2 \<mapsto> [1 \<mapsto> Finite 2], 3 \<mapsto> [1 \<mapsto> Finite 3], 4 \<mapsto> [1 \<mapsto> Finite 4]]]] ''BOSTON'' 1961 5 1 (Finite 5)
     = [''BOSTON'' \<mapsto> [1961 \<mapsto> [1 \<mapsto> [0 \<mapsto> Finite 99, 1 \<mapsto> Finite 1], 2 \<mapsto> [1 \<mapsto> Finite 2], 3 \<mapsto> [1 \<mapsto> Finite 3], 4 \<mapsto> [1 \<mapsto> Finite 4], 5 \<mapsto> [1 \<mapsto> Finite 5]]]]"
  "store_record [''BOSTON'' \<mapsto> [1961 \<mapsto> [1 \<mapsto> [0 \<mapsto> Finite 99, 1 \<mapsto> Finite 1], 2 \<mapsto> [1 \<mapsto> Finite 2], 3 \<mapsto> [1 \<mapsto> Finite 3], 4 \<mapsto> [1 \<mapsto> Finite 4], 5 \<mapsto> [1 \<mapsto> Finite 5]]]] ''BOSTON'' 1961 6 1 (Finite 6)
     = [''BOSTON'' \<mapsto> [1961 \<mapsto> [1 \<mapsto> [0 \<mapsto> Finite 99, 1 \<mapsto> Finite 1], 2 \<mapsto> [1 \<mapsto> Finite 2], 3 \<mapsto> [1 \<mapsto> Finite 3], 4 \<mapsto> [1 \<mapsto> Finite 4], 5 \<mapsto> [1 \<mapsto> Finite 5], 6 \<mapsto> [1 \<mapsto> Finite 6]]]]"
  "store_record [''BOSTON'' \<mapsto> [1961 \<mapsto> [1 \<mapsto> [0 \<mapsto> Finite 99, 1 \<mapsto> Finite 1], 2 \<mapsto> [1 \<mapsto> Finite 2], 3 \<mapsto> [1 \<mapsto> Finite 3], 4 \<mapsto> [1 \<mapsto> Finite 4], 5 \<mapsto> [1 \<mapsto> Finite 5], 6 \<mapsto> [1 \<mapsto> Finite 6]]]] ''BOSTON'' 1961 7 1 (Finite 7)
     = [''BOSTON'' \<mapsto> [1961 \<mapsto> [1 \<mapsto> [0 \<mapsto> Finite 99, 1 \<mapsto> Finite 1], 2 \<mapsto> [1 \<mapsto> Finite 2], 3 \<mapsto> [1 \<mapsto> Finite 3], 4 \<mapsto> [1 \<mapsto> Finite 4], 5 \<mapsto> [1 \<mapsto> Finite 5], 6 \<mapsto> [1 \<mapsto> Finite 6], 7 \<mapsto> [1 \<mapsto> Finite 7]]]]"
  "store_record [''BOSTON'' \<mapsto> [1961 \<mapsto> [1 \<mapsto> [0 \<mapsto> Finite 99, 1 \<mapsto> Finite 1], 2 \<mapsto> [1 \<mapsto> Finite 2], 3 \<mapsto> [1 \<mapsto> Finite 3], 4 \<mapsto> [1 \<mapsto> Finite 4], 5 \<mapsto> [1 \<mapsto> Finite 5], 6 \<mapsto> [1 \<mapsto> Finite 6], 7 \<mapsto> [1 \<mapsto> Finite 7]]]] ''BOSTON'' 1961 8 1 (Finite 8)
     = [''BOSTON'' \<mapsto> [1961 \<mapsto> [1 \<mapsto> [0 \<mapsto> Finite 99, 1 \<mapsto> Finite 1], 2 \<mapsto> [1 \<mapsto> Finite 2], 3 \<mapsto> [1 \<mapsto> Finite 3], 4 \<mapsto> [1 \<mapsto> Finite 4], 5 \<mapsto> [1 \<mapsto> Finite 5], 6 \<mapsto> [1 \<mapsto> Finite 6], 7 \<mapsto> [1 \<mapsto> Finite 7], 8 \<mapsto> [1 \<mapsto> Finite 8]]]]"
  "store_record [''BOSTON'' \<mapsto> [1961 \<mapsto> [1 \<mapsto> [0 \<mapsto> Finite 99, 1 \<mapsto> Finite 1], 2 \<mapsto> [1 \<mapsto> Finite 2], 3 \<mapsto> [1 \<mapsto> Finite 3], 4 \<mapsto> [1 \<mapsto> Finite 4], 5 \<mapsto> [1 \<mapsto> Finite 5], 6 \<mapsto> [1 \<mapsto> Finite 6], 7 \<mapsto> [1 \<mapsto> Finite 7], 8 \<mapsto> [1 \<mapsto> Finite 8]]]] ''BOSTON'' 1961 9 1 (Finite 9)
     = [''BOSTON'' \<mapsto> [1961 \<mapsto> [1 \<mapsto> [0 \<mapsto> Finite 99, 1 \<mapsto> Finite 1], 2 \<mapsto> [1 \<mapsto> Finite 2], 3 \<mapsto> [1 \<mapsto> Finite 3], 4 \<mapsto> [1 \<mapsto> Finite 4], 5 \<mapsto> [1 \<mapsto> Finite 5], 6 \<mapsto> [1 \<mapsto> Finite 6], 7 \<mapsto> [1 \<mapsto> Finite 7], 8 \<mapsto> [1 \<mapsto> Finite 8], 9 \<mapsto> [1 \<mapsto> Finite 9]]]]"
  "store_record [''BOSTON'' \<mapsto> [1961 \<mapsto> [1 \<mapsto> [0 \<mapsto> Finite 99, 1 \<mapsto> Finite 1], 2 \<mapsto> [1 \<mapsto> Finite 2], 3 \<mapsto> [1 \<mapsto> Finite 3], 4 \<mapsto> [1 \<mapsto> Finite 4], 5 \<mapsto> [1 \<mapsto> Finite 5], 6 \<mapsto> [1 \<mapsto> Finite 6], 7 \<mapsto> [1 \<mapsto> Finite 7], 8 \<mapsto> [1 \<mapsto> Finite 8], 9 \<mapsto> [1 \<mapsto> Finite 9]]]] ''BOSTON'' 1961 10 1 (Finite 10)
     = [''BOSTON'' \<mapsto> [1961 \<mapsto> [1 \<mapsto> [0 \<mapsto> Finite 99, 1 \<mapsto> Finite 1], 2 \<mapsto> [1 \<mapsto> Finite 2], 3 \<mapsto> [1 \<mapsto> Finite 3], 4 \<mapsto> [1 \<mapsto> Finite 4], 5 \<mapsto> [1 \<mapsto> Finite 5], 6 \<mapsto> [1 \<mapsto> Finite 6], 7 \<mapsto> [1 \<mapsto> Finite 7], 8 \<mapsto> [1 \<mapsto> Finite 8], 9 \<mapsto> [1 \<mapsto> Finite 9], 10 \<mapsto> [1 \<mapsto> Finite 10]]]]"
  "store_record [''BOSTON'' \<mapsto> [1961 \<mapsto> [1 \<mapsto> [0 \<mapsto> Finite 99, 1 \<mapsto> Finite 1], 2 \<mapsto> [1 \<mapsto> Finite 2], 3 \<mapsto> [1 \<mapsto> Finite 3], 4 \<mapsto> [1 \<mapsto> Finite 4], 5 \<mapsto> [1 \<mapsto> Finite 5], 6 \<mapsto> [1 \<mapsto> Finite 6], 7 \<mapsto> [1 \<mapsto> Finite 7], 8 \<mapsto> [1 \<mapsto> Finite 8], 9 \<mapsto> [1 \<mapsto> Finite 9], 10 \<mapsto> [1 \<mapsto> Finite 10]]]] ''BOSTON'' 1961 11 1 (Finite 11)
     = [''BOSTON'' \<mapsto> [1961 \<mapsto> [1 \<mapsto> [0 \<mapsto> Finite 99, 1 \<mapsto> Finite 1], 2 \<mapsto> [1 \<mapsto> Finite 2], 3 \<mapsto> [1 \<mapsto> Finite 3], 4 \<mapsto> [1 \<mapsto> Finite 4], 5 \<mapsto> [1 \<mapsto> Finite 5], 6 \<mapsto> [1 \<mapsto> Finite 6], 7 \<mapsto> [1 \<mapsto> Finite 7], 8 \<mapsto> [1 \<mapsto> Finite 8], 9 \<mapsto> [1 \<mapsto> Finite 9], 10 \<mapsto> [1 \<mapsto> Finite 10], 11 \<mapsto> [1 \<mapsto> Finite 11]]]]"
  "store_record [''BOSTON'' \<mapsto> [1961 \<mapsto> [1 \<mapsto> [0 \<mapsto> Finite 99, 1 \<mapsto> Finite 1], 2 \<mapsto> [1 \<mapsto> Finite 2], 3 \<mapsto> [1 \<mapsto> Finite 3], 4 \<mapsto> [1 \<mapsto> Finite 4], 5 \<mapsto> [1 \<mapsto> Finite 5], 6 \<mapsto> [1 \<mapsto> Finite 6], 7 \<mapsto> [1 \<mapsto> Finite 7], 8 \<mapsto> [1 \<mapsto> Finite 8], 9 \<mapsto> [1 \<mapsto> Finite 9], 10 \<mapsto> [1 \<mapsto> Finite 10], 11 \<mapsto> [1 \<mapsto> Finite 11]]]] ''BOSTON'' 1961 12 1 (Finite 12)
     = [''BOSTON'' \<mapsto> [1961 \<mapsto> [1 \<mapsto> [0 \<mapsto> Finite 99, 1 \<mapsto> Finite 1], 2 \<mapsto> [1 \<mapsto> Finite 2], 3 \<mapsto> [1 \<mapsto> Finite 3], 4 \<mapsto> [1 \<mapsto> Finite 4], 5 \<mapsto> [1 \<mapsto> Finite 5], 6 \<mapsto> [1 \<mapsto> Finite 6], 7 \<mapsto> [1 \<mapsto> Finite 7], 8 \<mapsto> [1 \<mapsto> Finite 8], 9 \<mapsto> [1 \<mapsto> Finite 9], 10 \<mapsto> [1 \<mapsto> Finite 10], 11 \<mapsto> [1 \<mapsto> Finite 11], 12 \<mapsto> [1 \<mapsto> Finite 12]]]]"
  by (simp_all add: store_record_def)

lemma year_file_load:
  "Climate_init year_file =
     Inr [''BOSTON'' \<mapsto> [1961 \<mapsto> [1 \<mapsto> [0 \<mapsto> Finite 99, 1 \<mapsto> Finite 1], 2 \<mapsto> [1 \<mapsto> Finite 2], 3 \<mapsto> [1 \<mapsto> Finite 3], 4 \<mapsto> [1 \<mapsto> Finite 4], 5 \<mapsto> [1 \<mapsto> Finite 5], 6 \<mapsto> [1 \<mapsto> Finite 6], 7 \<mapsto> [1 \<mapsto> Finite 7], 8 \<mapsto> [1 \<mapsto> Finite 8], 9 \<mapsto> [1 \<mapsto> Finite 9], 10 \<mapsto> [1 \<mapsto> Finite 10], 11 \<mapsto> [1 \<mapsto> Finite 11], 12 \<mapsto> [1 \<mapsto> Finite 12]]]]"
  unfolding year_file_def Climate_init_def list.case
  by (rule trans [OF load_lines_step [OF year_file_parse(1) year_file_store(1)]],
      rule trans [OF load_lines_step [OF year_file_parse(2) year_file_store(2)]],
      rule trans [OF load_lines_step [OF year_file_parse(3) year_file_store(3)]],
      rule trans [OF load_lines_step [OF year_file_parse(4) year_file_store(4)]],
      rule trans [OF load_lines_step [OF year_file_parse(5) year_file_store(5)]],
      rule trans [OF load_lines_step [OF year_file_parse(6) year_file_store(6)]],
      rule trans [OF load_lines_step [OF year_file_parse(7) year_file_store(7)]],
      rule trans [OF load_lines_step [OF year_file_parse(8) year_file_store(8)]],
      rule trans [OF load_lines_step [OF year_file_parse(9) year_file_store(9)]],
      rule trans [OF load_lines_step [OF year_file_parse(10) year_file_store(10)]],
      rule trans [OF load_lines_step [OF year_file_parse(11) year_file_store(11)]],
      rule trans [OF load_lines_step [OF year_file_parse(12) year_file_store(12)]],
      rule trans [OF load_lines_step [OF year_file_parse(13) year_file_store(13)]],
      rule load_lines.simps(1))

lemma year_file_records:
  "records year_file =
     [(''BOSTON'', 1961, 1, 0, Finite 99),
      (''BOSTON'', 1961, 1, 1, Finite 1), (''BOSTON'', 1961, 2, 1, Finite 2),
      (''BOSTON'', 1961, 3, 1, Finite 3), (''BOSTON'', 1961, 4, 1, Finite 4),
      (''BOSTON'', 1961, 5, 1, Finite 5), (''BOSTON'', 1961, 6, 1, Finite 6),
      (''BOSTON'', 1961, 7, 1, Finite 7), (''BOSTON'', 1961, 8, 1, Finite 8),
      (''BOSTON'', 1961, 9, 1, Finite 9), (''BOSTON'', 1961, 10, 1, Finite 10),
      (''BOSTON'', 1961, 11, 1, Finite 11), (''BOSTON'', 1961, 12, 1, Finite 12)]"
  by (simp only: records_def year_file_def list.case line_records_def list.map year_file_parse
        sum.case concat.simps append.simps)

lemma recorded_days_records:
  assumes "Climate_init file_lines = Inr rd"
  shows "recorded_days rd c y =
           set (map (\<lambda>(c', y', m, d, t). (m, d))
                  (filter (\<lambda>(c', y', m, d, t). c' = c \<and> y' = y) (records file_lines)))"
proof -
  have "\<And>m d. d \<in> dom (days_of rd c y m) \<longleftrightarrow> (\<exists>t. (c, y, m, d, t) \<in> set (records file_lines))"
    using Climate_init_levels [OF assms] by blast
  then show ?thesis
    by (auto simp: recorded_days_def image_iff)
qed

lemma year_file_recorded:
  "card (recorded_days (projr (Climate_init year_file)) ''BOSTON'' 1961) = 13"
proof -
  have "Climate_init year_file = Inr (projr (Climate_init year_file))"
    by (simp add: year_file_load)
  from recorded_days_records [OF this] show ?thesis
    by (simp add: year_file_records)
qed


lemma year_file_yearly:
  "get_yearly_temp (projr (Climate_init year_file)) ''BOSTON'' 1961 =
     Inr [Finite 1, Finite 2, Finite 3, Finite 4, Finite 5, Finite 6,
          Finite 7, Finite 8, Finite 9, Finite 10, Finite 11, Finite 12]"
  by (simp add: year_file_load get_yearly_temp_def upto.simps)


section \<open>Claims about the store\<close>

text \<open>
  C5. \<^verbatim>\<open>get_daily_temp\<close> checks the key path in the order city, year, month, day:
  it raises the assertion of the first level that is absent, and when all four are
  present it returns the stored temperature. The four errors of the specification are the
  four assertion messages of the source. (The source takes its arguments in the order
  city, month, day, year.)
\<close>

theorem get_daily_temp_priority:
  "get_daily_temp rd c m d y =
     (if c \<notin> dom rd then Inl (AssertionError City_not_available)
      else if y \<notin> dom (years_of rd c) then Inl (AssertionError Year_not_available)
      else if m \<notin> dom (months_of rd c y) then Inl (AssertionError Month_not_available)
      else if d \<notin> dom (days_of rd c y m) then Inl (AssertionError Day_not_available)
      else Inr (the (days_of rd c y m d)))"
  by (auto simp: get_daily_temp_levels split: option.splits)

theorem get_daily_temp_priority_witness:
  "get_daily_temp [''BOSTON'' \<mapsto> [1961 \<mapsto> [1 \<mapsto> [10 \<mapsto> Finite 5]]]] ''BOSTON'' 1 10 1961
     = Inr (Finite 5)
   \<and> get_daily_temp [''BOSTON'' \<mapsto> [1961 \<mapsto> [1 \<mapsto> [10 \<mapsto> Finite 5]]]] ''SEATTLE'' 2 11 1962
     = Inl (AssertionError City_not_available)
   \<and> get_daily_temp [''BOSTON'' \<mapsto> [1961 \<mapsto> [1 \<mapsto> [10 \<mapsto> Finite 5]]]] ''BOSTON'' 2 11 1962
     = Inl (AssertionError Year_not_available)
   \<and> get_daily_temp [''BOSTON'' \<mapsto> [1961 \<mapsto> [1 \<mapsto> [10 \<mapsto> Finite 5]]]] ''BOSTON'' 2 11 1961
     = Inl (AssertionError Month_not_available)
   \<and> get_daily_temp [''BOSTON'' \<mapsto> [1961 \<mapsto> [1 \<mapsto> [10 \<mapsto> Finite 5]]]] ''BOSTON'' 1 11 1961
     = Inl (AssertionError Day_not_available)"
  by (simp only: get_daily_temp_priority) (simp add: years_of_def months_of_def days_of_def)

text \<open>
  C7. When every line of the file parses on its own, the load succeeds, whatever keys
  repeat, and for every record of the file \<^verbatim>\<open>get_daily_temp\<close> at its key returns the
  temperature of the last record of the file with that key.
\<close>

theorem round_trip_last_write_wins:
  assumes "\<forall>line\<in>set rest. \<exists>r. parse_line (split_comma (strip h)) (split_comma (strip line)) = Inr r"
  shows "\<exists>rd. Climate_init (h # rest) = Inr rd \<and>
           (\<forall>(c, y, m, d, t)\<in>set (records (h # rest)).
               get_daily_temp rd c m d y =
                 Inr (temp_of (last (with_key (c, y, m, d) (records (h # rest))))))"
proof -
  from load_lines_succeeds [OF assms] obtain rd where
    rd: "Climate_init (h # rest) = Inr rd"
    by (auto simp: Climate_init_def)
  have "\<forall>(c, y, m, d, t)\<in>set (records (h # rest)).
          get_daily_temp rd c m d y =
            Inr (temp_of (last (with_key (c, y, m, d) (records (h # rest)))))"
    using Climate_init_daily [OF rd] by blast
  with rd show ?thesis by blast
qed

theorem round_trip_last_write_wins_witness:
  "parse_line (split_comma (strip ''DATE,CITY,TEMP'')) (split_comma (strip ''19610110,BOSTON,3''))
     = Inr (''BOSTON'', 1961, 1, 10, Finite 3)
   \<and> parse_line (split_comma (strip ''DATE,CITY,TEMP'')) (split_comma (strip ''19610110,BOSTON,5''))
     = Inr (''BOSTON'', 1961, 1, 10, Finite 5)
   \<and> get_daily_temp
        (projr (Climate_init [''DATE,CITY,TEMP'', ''19610110,BOSTON,3'', ''19610110,BOSTON,5'']))
        ''BOSTON'' 1 10 1961 = Inr (Finite 5)"
proof -
  have p1: "parse_line (split_comma (strip ''DATE,CITY,TEMP''))
              (split_comma (strip ''19610110,BOSTON,3'')) = Inr (''BOSTON'', 1961, 1, 10, Finite 3)"
    by (simp add: eval_defs)
  have p2: "parse_line (split_comma (strip ''DATE,CITY,TEMP''))
              (split_comma (strip ''19610110,BOSTON,5'')) = Inr (''BOSTON'', 1961, 1, 10, Finite 5)"
    by (simp add: eval_defs)
  from p1 p2 have h: "\<forall>line\<in>set [''19610110,BOSTON,3'', ''19610110,BOSTON,5''].
      \<exists>r. parse_line (split_comma (strip ''DATE,CITY,TEMP'')) (split_comma (strip line)) = Inr r"
    by simp
  from round_trip_last_write_wins [OF h] obtain rd where
    rd: "Climate_init [''DATE,CITY,TEMP'', ''19610110,BOSTON,3'', ''19610110,BOSTON,5''] = Inr rd"
    and all: "\<forall>(c, y, m, d, t)\<in>set (records [''DATE,CITY,TEMP'', ''19610110,BOSTON,3'',
                                                 ''19610110,BOSTON,5'']).
               get_daily_temp rd c m d y =
                 Inr (temp_of (last (with_key (c, y, m, d)
                   (records [''DATE,CITY,TEMP'', ''19610110,BOSTON,3'', ''19610110,BOSTON,5'']))))"
    by blast
  from all have "get_daily_temp rd ''BOSTON'' 1 10 1961 = Inr (Finite 5)"
    by (simp add: example_records with_key_def)
  with rd p1 p2 show ?thesis by simp
qed

text \<open>
  C10. In a store that the constructor has built, a city is a key exactly when a record of
  the file names it, a year is a key under a city exactly when a record of that city has
  it, and a month is a key under a city and year exactly when a record of that city and
  year has it; no dictionary below the top is empty. The two queries only read
  \<^verbatim>\<open>self.rawdata\<close> (subscripts and \<^verbatim>\<open>in\<close> on plain dictionaries), which is why
  they are functions of the store and return no store.
\<close>

theorem store_levels_nonempty:
  assumes "Climate_init file_lines = Inr rd"
  shows "(c \<in> dom rd \<longleftrightarrow> (\<exists>y m d t. (c, y, m, d, t) \<in> set (records file_lines)))
       \<and> (y \<in> dom (years_of rd c) \<longleftrightarrow> (\<exists>m d t. (c, y, m, d, t) \<in> set (records file_lines)))
       \<and> (m \<in> dom (months_of rd c y) \<longleftrightarrow> (\<exists>d t. (c, y, m, d, t) \<in> set (records file_lines)))
       \<and> (d \<in> dom (days_of rd c y m) \<longleftrightarrow> (\<exists>t. (c, y, m, d, t) \<in> set (records file_lines)))
       \<and> (\<forall>ys. rd c = Some ys \<longrightarrow> ys \<noteq> Map.empty)
       \<and> (\<forall>ms. years_of rd c y = Some ms \<longrightarrow> ms \<noteq> Map.empty)
       \<and> (\<forall>dm. months_of rd c y m = Some dm \<longrightarrow> dm \<noteq> Map.empty)"
  by (rule Climate_init_levels [OF assms])

theorem store_levels_nonempty_witness:
  "Climate_init [''DATE,CITY,TEMP'', ''19610110,BOSTON,3'', ''19610110,BOSTON,5'']
     = Inr [''BOSTON'' \<mapsto> [1961 \<mapsto> [1 \<mapsto> [10 \<mapsto> Finite 5]]]]
   \<and> (\<exists>y m d t. (''BOSTON'', y, m, d, t)
          \<in> set (records [''DATE,CITY,TEMP'', ''19610110,BOSTON,3'', ''19610110,BOSTON,5'']))
   \<and> years_of [''BOSTON'' \<mapsto> [1961 \<mapsto> [1 \<mapsto> [10 \<mapsto> Finite 5]]]] ''BOSTON'' 1961
        \<noteq> Some Map.empty"
proof -
  note h = example_file
  note t = store_levels_nonempty [OF h, of "''BOSTON''" 1961 1 10]
  have "''BOSTON'' \<in> dom [''BOSTON'' \<mapsto> [1961 \<mapsto> [1 \<mapsto> [10 \<mapsto> Finite 5]]]]"
    by simp
  with t [THEN conjunct1] have a: "\<exists>y m d t. (''BOSTON'', y, m, d, t)
          \<in> set (records [''DATE,CITY,TEMP'', ''19610110,BOSTON,3'', ''19610110,BOSTON,5''])"
    by (rule iffD1)
  note b = t [THEN conjunct2, THEN conjunct2, THEN conjunct2, THEN conjunct2, THEN conjunct2,
              THEN conjunct1]
  from b have c: "years_of [''BOSTON'' \<mapsto> [1961 \<mapsto> [1 \<mapsto> [10 \<mapsto> Finite 5]]]] ''BOSTON'' 1961
        \<noteq> Some Map.empty"
    by blast
  from h a c show ?thesis
    by (intro conjI)
qed

text \<open>
  C3. A file with a single observation, in January 1961: the city and the year are
  present, and \<^verbatim>\<open>get_yearly_temp\<close> raises \<^verbatim>\<open>KeyError\<close> when its loop reaches
  February, a month of that year with no observation.
\<close>

theorem get_yearly_temp_missing_month:
  "Climate_init [''DATE,CITY,TEMP'', ''19610115,BOSTON,3.5'']
     = Inr [''BOSTON'' \<mapsto> [1961 \<mapsto> [1 \<mapsto> [15 \<mapsto> Finite 3.5]]]]
   \<and> get_yearly_temp [''BOSTON'' \<mapsto> [1961 \<mapsto> [1 \<mapsto> [15 \<mapsto> Finite 3.5]]]] ''BOSTON'' 1961
       = Inl KeyError"
  by (simp add: eval_defs get_yearly_temp_def upto.simps)


text \<open>
  C4, as the code has it. When \<^verbatim>\<open>get_yearly_temp\<close> returns, the sequence holds the
  temperatures of the recorded days with month in 1 to 12 and day in 1 to 31, in calendar
  order (month ascending, then day ascending), and its length is the number of those
  days.
\<close>

theorem get_yearly_temp_calendar:
  assumes "get_yearly_temp rd c y = Inr ts"
  shows "ts = map (\<lambda>(m, d). the (days_of rd c y m d)) (sorted_list_of_set (calendar_days rd c y))
       \<and> length ts = card (calendar_days rd c y)"
proof -
  have f: "finite (calendar_days rd c y)"
    by (rule finite_subset [of _ "{1..12} \<times> {1..31}"]) (auto simp: calendar_days_def)
  from get_yearly_temp_Inr [OF assms]
  have ts: "ts = map (\<lambda>(m, d). the (days_of rd c y m d)) (sorted_list_of_set (calendar_days rd c y))"
    by (simp only: calendar_list)
  then have "length ts = length (sorted_list_of_set (calendar_days rd c y))"
    by simp
  with f ts show ?thesis
    by simp
qed

theorem get_yearly_temp_calendar_witness:
  "get_yearly_temp (projr (Climate_init year_file)) ''BOSTON'' 1961 =
     Inr [Finite 1, Finite 2, Finite 3, Finite 4, Finite 5, Finite 6,
          Finite 7, Finite 8, Finite 9, Finite 10, Finite 11, Finite 12]
   \<and> card (calendar_days (projr (Climate_init year_file)) ''BOSTON'' 1961) = 12"
proof -
  note h = year_file_yearly
  from get_yearly_temp_calendar [OF h, THEN conjunct2]
  have "card (calendar_days (projr (Climate_init year_file)) ''BOSTON'' 1961) = 12"
    by simp
  with h show ?thesis
    by (intro conjI)
qed

text \<open>
  C4 as the specification states it fails on \<open>year_file\<close>: the load succeeds, the store
  holds thirteen days of 1961 for the city, among them day 0 of January with temperature
  99, and \<^verbatim>\<open>get_yearly_temp\<close> returns twelve temperatures, none of them 99.
\<close>

theorem get_yearly_temp_skips_recorded_day:
  "\<not> isl (Climate_init year_file)
   \<and> get_daily_temp (projr (Climate_init year_file)) ''BOSTON'' 1 0 1961 = Inr (Finite 99)
   \<and> get_yearly_temp (projr (Climate_init year_file)) ''BOSTON'' 1961 =
       Inr [Finite 1, Finite 2, Finite 3, Finite 4, Finite 5, Finite 6,
            Finite 7, Finite 8, Finite 9, Finite 10, Finite 11, Finite 12]
   \<and> card (recorded_days (projr (Climate_init year_file)) ''BOSTON'' 1961) = 13"
proof -
  have a: "\<not> isl (Climate_init year_file)"
    by (simp add: year_file_load)
  have b: "get_daily_temp (projr (Climate_init year_file)) ''BOSTON'' 1 0 1961 = Inr (Finite 99)"
    by (simp add: year_file_load get_daily_temp_def)
  from a b year_file_yearly year_file_recorded show ?thesis
    by (intro conjI)
qed

section \<open>Claims about the loader\<close>


lemma load_lines_Inr_parses:
  "load_lines header lines rd = Inr rd' \<Longrightarrow>
   \<forall>line\<in>set lines. \<exists>r. parse_line header (split_comma (strip line)) = Inr r"
proof (induction lines arbitrary: rd)
  case Nil
  then show ?case by simp
next
  case (Cons line rest)
  then show ?case by (auto split: sum.splits)
qed








section \<open>Claims about the score\<close>

subsection \<open>The exact arithmetic is an instance\<close>

lemma sum_list_upt_nth: "sum_list (map f [0..<n]) = (\<Sum>i<n. f i)"
  by (simp add: interv_sum_list_conv_sum_set_nat lessThan_atLeast0)


lemma sum_list_nth: "sum_list (map g ys) = (\<Sum>i<length ys. g (ys ! i))"
proof -
  have "sum_list (map g ys) = (\<Sum>i<length ys. map g ys ! i)"
    using sum_list_sum_nth [of "map g ys"] by (simp add: lessThan_atLeast0)
  also have "\<dots> = (\<Sum>i<length ys. g (ys ! i))"
    by (rule sum.cong) simp_all
  finally show ?thesis .
qed

lemma np_var_population:
  "y \<noteq> [] \<Longrightarrow> np_var y = Finite (population_variance y)"
proof -
  assume "y \<noteq> []"
  have m: "sum_list y / real (length y) = mean y"
    using sum_list_nth [of "\<lambda>v. v" y] by (simp add: mean_def)
  show ?thesis
    using \<open>y \<noteq> []\<close>
    by (simp add: np_var_def Let_def m population_variance_def sum_list_nth [of "\<lambda>v. (v - mean y)\<^sup>2" y])
qed



lemmas r_squared_eval = r_squared_def bind_err_def getitem_def np_var_def Let_def power2_eq_square



lemma sum_of_squares_with_upt:
  assumes "length y = length estimated"
  shows "sum_of_squares_with A y estimated [k..<length estimated] acc =
           bind_err (squares_of A (drop k (zip estimated y)))
             (\<lambda>ss. Inr (foldl (py_add A) acc ss))"
proof (induction "length estimated - k" arbitrary: k acc)
  case 0
  then have le: "length estimated \<le> k" by simp
  then have a: "[k..<length estimated] = []" by simp
  from le assms have b: "drop k (zip estimated y) = []" by simp
  show ?case unfolding a b by (simp add: bind_err_def)
next
  case (Suc n)
  then have k: "k < length estimated" by simp
  with assms have ky: "k < length y" by simp
  from k have u: "[k..<length estimated] = k # [Suc k..<length estimated]"
    by (simp add: upt_conv_Cons)
  from k ky have d: "drop k (zip estimated y) =
      (estimated ! k, y ! k) # drop (Suc k) (zip estimated y)"
    by (simp add: Cons_nth_drop_Suc [symmetric])
  from Suc.hyps(2) have n: "n = length estimated - Suc k" by simp
  show ?case
    by (simp add: u d getitem_def k ky Suc.hyps(1) [OF n] bind_err_def split: sum.splits)
qed

lemma r_squared_with_equal_length:
  assumes "length y = length estimated" and "0 < length y"
  shows "r_squared_with A y estimated =
           bind_err (squares_of A (zip estimated y)) (\<lambda>ss.
           bind_err (py_div_len A (foldl (py_add A) (py_zero A) ss) (length y)) (\<lambda>mse.
           Inr (np_one_minus A (np_rdiv A mse (np_var_of A y)))))"
  using assms sum_of_squares_with_upt [OF assms(1), of A 0 "py_zero A"]
  by (simp add: r_squared_with_def bind_err_def split: sum.splits)


lemma r_squared_with_mean_square:
  assumes "length y = length estimated" and "0 < length y"
  shows "r_squared_with A y estimated =
           bind_err (mean_square A y estimated) (\<lambda>mse.
             Inr (np_one_minus A (np_rdiv A mse (np_var_of A y))))"
  using assms
  by (simp add: r_squared_with_equal_length mean_square_def bind_err_def split: sum.splits)


text \<open>
  C1. For \<open>y\<close> and \<open>estimated\<close> of the same positive length, whatever the arithmetic,
  \<^verbatim>\<open>r_squared\<close> returns one minus a quotient of two divisions: the sum of the squared
  differences is divided by the length first, and that mean is divided by
  \<^verbatim>\<open>np.var(y)\<close>, numpy's population variance, second. An exception of the squares or
  of the first division is the exception of the call.
\<close>

theorem r_squared_two_divisions:
  assumes "length y = length estimated" and "0 < length y"
  shows "r_squared_with A y estimated =
           bind_err (mean_square A y estimated) (\<lambda>mse.
             Inr (np_one_minus A (np_rdiv A mse (np_var_of A y))))"
  by (rule r_squared_with_mean_square [OF assms])


theorem r_squared_two_divisions_witness:
  "length [0, 4 :: real] = length [0, 2 :: real]
   \<and> mean_square exact_arith [0, 4] [0, 2] = Inr 2
   \<and> np_var_of exact_arith [0, 4] = Finite 4
   \<and> r_squared_with exact_arith [0, 4] [0, 2] = Inr (Finite (1 / 2))"
proof -
  have l: "length [0, 4 :: real] = length [0, 2 :: real]" and p: "0 < length [0, 4 :: real]"
    by simp_all
  have m: "mean_square exact_arith [0, 4] [0, 2] = Inr 2"
    by (simp add: mean_square_def exact_arith_def bind_err_def)
  have v: "np_var_of exact_arith [0, 4] = Finite 4"
    by (simp add: exact_arith_def np_var_def Let_def)
  from r_squared_two_divisions [OF l p, of exact_arith]
  have "r_squared_with exact_arith [0, 4] [0, 2] = Inr (Finite (1 / 2))"
    by (simp add: m v bind_err_def) (simp add: exact_arith_def)
  with l m v show ?thesis
    by (intro conjI)
qed








section \<open>Claims about the evaluation of models\<close>

text \<open>
  C6. The docstring of \<^verbatim>\<open>evaluate_models_on_training\<close> promises the R-square of each
  model and the title prints \<^verbatim>\<open>r_sqr\<close> for each model, but \<^verbatim>\<open>r_sqr\<close> is assigned
  under \<^verbatim>\<open>len(model) == 2\<close> only. A model of three coefficients alone in the list
  ends in \<^verbatim>\<open>UnboundLocalError\<close>; after a linear model its plot repeats the score of
  that earlier model, 1/2, although \<^verbatim>\<open>r_squared\<close> on its own estimates is 1.
\<close>

theorem evaluate_skips_nonlinear_models:
  "evaluate_models_on_training [0, 2] [0, 4] [[1, 0, 0]] = Inl UnboundLocalError
   \<and> r_squared [0, 4] (map (polyval [1, 0, 0]) [0, 2]) = Inr (Finite 1)
   \<and> evaluate_models_on_training [0, 2] [0, 4] [[1, 0], [1, 0, 0]] =
       Inr [\<lparr>plot_x = [0, 2], plot_y = [0, 4], plot_estimates = [0, 2],
             title_r_sqr = Finite (1 / 2)\<rparr>,
            \<lparr>plot_x = [0, 2], plot_y = [0, 4], plot_estimates = [0, 4],
             title_r_sqr = Finite (1 / 2)\<rparr>]"
  by (simp add: evaluate_models_on_training_def polyval_def r_squared_eval)

section \<open>Claims about the fit\<close>

lemma residual_sum_nonneg: "0 \<le> residual_sum x y m"
  unfolding residual_sum_def by (rule sum_nonneg) simp

lemma is_polyfit_exact:
  "length m = deg + 1 \<Longrightarrow> residual_sum x y m = 0 \<Longrightarrow> is_polyfit x y deg m"
  by (simp add: is_polyfit_def residual_sum_nonneg)

lemma residual_line:
  "residual_sum [1, 2, 3] [1, 2, 3] [a, b] =
     (a + b - 1)\<^sup>2 + (2 * a + b - 2)\<^sup>2 + (3 * a + b - 3)\<^sup>2"
  by (simp add: residual_sum_def polyval_def algebra_simps)

lemma is_polyfit_line:
  assumes "is_polyfit [1, 2, 3] [1, 2, 3] 1 m"
  shows "m = [1, 0]"
proof -
  from assms have l: "length m = 2"
    and le: "residual_sum [1, 2, 3] [1, 2, 3] m \<le> residual_sum [1, 2, 3] [1, 2, 3] [1, 0]"
    by (simp_all add: is_polyfit_def)
  from l obtain a b where m: "m = [a, b]"
    by (cases m; cases "tl m") auto
  have "residual_sum [1, 2, 3] [1, 2, 3] [1, 0] = 0"
    by (simp add: residual_line)
  with le residual_sum_nonneg [of "[1, 2, 3]" "[1, 2, 3]" m]
  have "residual_sum [1, 2, 3] [1, 2, 3] [a, b] = 0"
    by (simp add: m)
  then have z: "(a + b - 1)\<^sup>2 + (2 * a + b - 2)\<^sup>2 + (3 * a + b - 3)\<^sup>2 = 0"
    by (simp only: residual_line)
  have "(a + b - 1)\<^sup>2 = 0" and "(2 * a + b - 2)\<^sup>2 = 0"
    using z zero_le_power2 [of "a + b - 1"] zero_le_power2 [of "2 * a + b - 2"]
      zero_le_power2 [of "3 * a + b - 3"] by linarith+
  then have "a + b = 1" and "2 * a + b = 2"
    by simp_all
  then have "a = 1" and "b = 0"
    by linarith+
  with m show ?thesis by simp
qed

text \<open>
  C9. For \<open>x = [1, 2, 3]\<close>, \<open>y = [1, 2, 3]\<close> and the degree 1, whatever
  \<^verbatim>\<open>generate_models\<close> returns under the least-squares contract of \<^verbatim>\<open>polyfit\<close>
  is a single model whose values at \<open>x\<close> are \<open>y\<close>, and the evaluation draws one plot
  with these estimates and the score 1. (Exact arithmetic: the tolerance of the
  floating-point solver is not modelled.)
\<close>

theorem linear_fit_exact:
  assumes "generate_models [1, 2, 3] [1, 2, 3] [1] models"
  shows "\<exists>m. models = [m]
           \<and> map (polyval m) [1, 2, 3] = [1, 2, 3]
           \<and> evaluate_models_on_training [1, 2, 3] [1, 2, 3] models =
               Inr [\<lparr>plot_x = [1, 2, 3], plot_y = [1, 2, 3], plot_estimates = [1, 2, 3],
                     title_r_sqr = Finite 1\<rparr>]"
proof -
  from assms obtain m where m: "models = [m]" and f: "is_polyfit [1, 2, 3] [1, 2, 3] 1 m"
    by (auto simp: generate_models_def list_all2_Cons1)
  from is_polyfit_line [OF f] m have mm: "models = [[1, 0]]"
    by simp
  have e: "map (polyval [1, 0]) [1, 2, 3] = [1, 2, 3 :: real]"
    by (simp add: polyval_def)
  have ev: "evaluate_models_on_training [1, 2, 3] [1, 2, 3] [[1, 0]] =
               Inr [\<lparr>plot_x = [1, 2, 3], plot_y = [1, 2, 3], plot_estimates = [1, 2, 3],
                     title_r_sqr = Finite 1\<rparr>]"
    by (simp add: evaluate_models_on_training_def polyval_def r_squared_eval)
  show ?thesis
    unfolding mm by (intro exI [of _ "[1, 0] :: real list"] conjI refl e ev)
qed

theorem linear_fit_exact_witness:
  "generate_models [1, 2, 3] [1, 2, 3] [1] [[1, 0]]
   \<and> map (polyval [1, 0]) [1, 2, 3] = [1, 2, 3]
   \<and> evaluate_models_on_training [1, 2, 3] [1, 2, 3] [[1, 0]] =
       Inr [\<lparr>plot_x = [1, 2, 3], plot_y = [1, 2, 3], plot_estimates = [1, 2, 3],
             title_r_sqr = Finite 1\<rparr>]"
proof -
  have "is_polyfit [1, 2, 3] [1, 2, 3] 1 [1, 0]"
    by (rule is_polyfit_exact) (simp_all add: residual_line)
  then have g: "generate_models [1, 2, 3] [1, 2, 3] [1] [[1, 0]]"
    by (simp add: generate_models_def)
  note t = linear_fit_exact [OF g]
  from t have e: "map (polyval [1, 0]) [1, 2, 3] = [1, 2, 3 :: real]"
    by (elim exE conjE) simp
  from t have ev: "evaluate_models_on_training [1, 2, 3] [1, 2, 3] [[1, 0]] =
       Inr [\<lparr>plot_x = [1, 2, 3], plot_y = [1, 2, 3], plot_estimates = [1, 2, 3],
             title_r_sqr = Finite 1\<rparr>]"
    by (elim exE conjE)
  from g e ev show ?thesis
    by (intro conjI)
qed

end
